theory Spec2Isabelle
  imports Complex_Main
begin

section \<open>Values and exceptions\<close>

text \<open>
  Python values that cross the provider boundary are JSON-shaped: the message dicts, the
  tool schemas and the parsed tool-call arguments. A dict is an association list, in
  insertion order.
\<close>

datatype json =
    JNull
  | JBool bool
  | JNumber int
  | JString string
  | JArray "json list"
  | JObject "(string \<times> json) list"

text \<open>
  Instances of Python's class \<open>Exception\<close>, which is what the handler
  \<open>except Exception as e\<close> of \<open>LiteLLMProvider.chat\<close> catches. Each carries the text
  that \<open>str(e)\<close> returns. \<open>Exception m\<close> stands for an instance of any other subclass
  (network, authentication, rate limit, ...).
\<close>

datatype py_Exception =
    TypeError string
  | IndexError string
  | Exception string

fun str :: "py_Exception \<Rightarrow> string" where
  "str (TypeError m) = m"
| "str (IndexError m) = m"
| "str (Exception m) = m"

section \<open>nanobot/providers: the LiteLLM provider\<close>

subsection \<open>What the backend returns\<close>

text \<open>
  The objects of a LiteLLM completion, with the attributes \<open>_parse_response\<close> reads.
  \<open>tc.function.arguments\<close> is either text (\<open>isinstance(args, str)\<close>) or an already
  structured value. An attribute read through \<open>hasattr(...) and ...\<close> is an option:
  \<open>None\<close> covers both the absent attribute and the value \<open>None\<close>, which take the same
  branch.
\<close>

datatype raw_arguments = ArgText string | ArgValue json

record Function =
  fn_name :: string
  fn_arguments :: raw_arguments

record ToolCall =
  tc_id :: string
  tc_function :: Function

record Message =
  msg_content :: "string option"
  msg_tool_calls :: "ToolCall list option"

record Choice =
  choice_message :: Message
  choice_finish_reason :: "string option"

record Usage =
  prompt_tokens :: int
  completion_tokens :: int
  total_tokens :: int

record ModelResponse =
  choices :: "Choice list"
  resp_usage :: "Usage option"

subsection \<open>What the provider returns\<close>

text \<open>
  Modelled from the spec: the declarations of \<open>ToolCallRequest\<close> and \<open>LLMResponse\<close>
  (nanobot/providers/base.py) are not among the sources. The fields are the ones the
  provider fills in and the spec's data model lists; a field the provider leaves out of
  the constructor call takes the empty default.
\<close>

record ToolCallRequest =
  request_id :: string
  request_name :: string
  arguments :: json

record LLMResponse =
  content :: "string option"
  tool_calls :: "ToolCallRequest list"
  finish_reason :: string
  usage :: "(string \<times> int) list"

subsection \<open>The request sent to the backend\<close>

text \<open>
  The keyword dictionary \<open>kwargs\<close> built by \<open>chat\<close>. The keys \<open>api_key\<close>, \<open>tools\<close> and
  \<open>tool_choice\<close> are set conditionally: \<open>None\<close> means the key is not in the dictionary.
  The temperature is carried through unchanged, no arithmetic is done on it.
\<close>

record completion_kwargs =
  kw_model :: string
  kw_messages :: "json list"
  kw_max_tokens :: int
  kw_temperature :: real
  kw_api_key :: "string option"
  kw_tools :: "json list option"
  kw_tool_choice :: "string option"

record LiteLLMProvider =
  api_key :: "string option"
  api_base :: "string option"
  default_model :: string

text \<open>Python truthiness of \<open>str | None\<close> and of \<open>list | None\<close>.\<close>

fun truthy_str :: "string option \<Rightarrow> bool" where
  "truthy_str None = False"
| "truthy_str (Some s) = (s \<noteq> [])"

fun truthy_list :: "'a list option \<Rightarrow> bool" where
  "truthy_list None = False"
| "truthy_list (Some xs) = (xs \<noteq> [])"

text \<open>\<open>x or d\<close> on \<open>str | None\<close>: the first operand when it is truthy.\<close>

definition or_default :: "string option \<Rightarrow> string \<Rightarrow> string" where
  "or_default x d = (case x of None \<Rightarrow> d | Some s \<Rightarrow> if s = [] then d else s)"

definition chat_kwargs ::
  "LiteLLMProvider \<Rightarrow> json list \<Rightarrow> json list option \<Rightarrow> string option \<Rightarrow> int \<Rightarrow> real
     \<Rightarrow> completion_kwargs" where
  "chat_kwargs self messages tools model max_tokens temperature =
     \<lparr> kw_model = or_default model (default_model self),
       kw_messages = messages,
       kw_max_tokens = max 1 max_tokens,
       kw_temperature = temperature,
       kw_api_key = (if truthy_str (api_key self) then api_key self else None),
       kw_tools = (if truthy_list tools then tools else None),
       kw_tool_choice = (if truthy_list tools then Some ''auto'' else None) \<rparr>"

subsection \<open>Parsing the response\<close>

text \<open>
  \<open>json_repair.loads\<close> belongs to a library outside the repository: the provider is
  parametrised by it. Like any call it either raises or returns a value, and the value
  need not be a dict.
\<close>

type_synonym json_loads = "string \<Rightarrow> py_Exception + json"

definition parse_tool_call :: "json_loads \<Rightarrow> ToolCall \<Rightarrow> py_Exception + ToolCallRequest" where
  "parse_tool_call loads tc =
     (case fn_arguments (tc_function tc) of
        ArgText s \<Rightarrow>
          (case loads s of
             Inl e \<Rightarrow> Inl e
           | Inr args \<Rightarrow>
               Inr \<lparr> request_id = tc_id tc, request_name = fn_name (tc_function tc),
                     arguments = args \<rparr>)
      | ArgValue args \<Rightarrow>
          Inr \<lparr> request_id = tc_id tc, request_name = fn_name (tc_function tc),
                arguments = args \<rparr>)"

text \<open>The \<open>for tc in message.tool_calls\<close> loop: the first exception ends it.\<close>

fun parse_tool_calls :: "json_loads \<Rightarrow> ToolCall list \<Rightarrow> py_Exception + ToolCallRequest list" where
  "parse_tool_calls loads [] = Inr []"
| "parse_tool_calls loads (tc # tcs) =
     (case parse_tool_call loads tc of
        Inl e \<Rightarrow> Inl e
      | Inr r \<Rightarrow>
          (case parse_tool_calls loads tcs of
             Inl e \<Rightarrow> Inl e
           | Inr rs \<Rightarrow> Inr (r # rs)))"

definition usage_dict :: "Usage option \<Rightarrow> (string \<times> int) list" where
  "usage_dict u =
     (case u of
        None \<Rightarrow> []
      | Some v \<Rightarrow>
          [(''prompt_tokens'', prompt_tokens v),
           (''completion_tokens'', completion_tokens v),
           (''total_tokens'', total_tokens v)])"

text \<open>
  \<open>_parse_response\<close>. \<open>response.choices[0]\<close> raises IndexError on an empty list; the
  tool-call loop runs only when \<open>message.tool_calls\<close> is truthy.
\<close>

definition parse_response :: "json_loads \<Rightarrow> ModelResponse \<Rightarrow> py_Exception + LLMResponse" where
  "parse_response loads response =
     (case choices response of
        [] \<Rightarrow> Inl (IndexError ''list index out of range'')
      | choice # _ \<Rightarrow>
          (let message = choice_message choice in
           case (case msg_tool_calls message of
                   None \<Rightarrow> Inr []
                 | Some tcs \<Rightarrow> if tcs = [] then Inr [] else parse_tool_calls loads tcs) of
             Inl e \<Rightarrow> Inl e
           | Inr tcs \<Rightarrow>
               Inr \<lparr> content = msg_content message,
                     tool_calls = tcs,
                     finish_reason = or_default (choice_finish_reason choice) ''stop'',
                     usage = usage_dict (resp_usage response) \<rparr>))"

subsection \<open>chat\<close>

text \<open>
  \<open>acompletion\<close> is the backend call: for the request it is given it raises or returns a
  completion. \<open>chat_attempt\<close> is the body of the \<open>try\<close> block, the call and the parsing of
  its result; \<open>chat\<close> adds the handler, which turns an exception into a response.
\<close>

type_synonym backend = "completion_kwargs \<Rightarrow> py_Exception + ModelResponse"

definition error_response :: "py_Exception \<Rightarrow> LLMResponse" where
  "error_response e =
     \<lparr> content = Some (''Error calling LLM: '' @ str e),
       tool_calls = [],
       finish_reason = ''error'',
       usage = [] \<rparr>"

definition chat_attempt ::
  "LiteLLMProvider \<Rightarrow> backend \<Rightarrow> json_loads \<Rightarrow> json list \<Rightarrow> json list option
     \<Rightarrow> string option \<Rightarrow> int \<Rightarrow> real \<Rightarrow> py_Exception + LLMResponse" where
  "chat_attempt self acompletion loads messages tools model max_tokens temperature =
     (case acompletion (chat_kwargs self messages tools model max_tokens temperature) of
        Inl e \<Rightarrow> Inl e
      | Inr response \<Rightarrow> parse_response loads response)"

definition chat ::
  "LiteLLMProvider \<Rightarrow> backend \<Rightarrow> json_loads \<Rightarrow> json list \<Rightarrow> json list option
     \<Rightarrow> string option \<Rightarrow> int \<Rightarrow> real \<Rightarrow> py_Exception + LLMResponse" where
  "chat self acompletion loads messages tools model max_tokens temperature =
     (case chat_attempt self acompletion loads messages tools model max_tokens temperature of
        Inl e \<Rightarrow> Inr (error_response e)
      | Inr r \<Rightarrow> Inr r)"

text \<open>
  Stand-ins for the two external calls, to run the provider on concrete inputs: a backend
  that raises, a backend that returns a given completion, and a \<open>json_repair.loads\<close>
  that returns a given value. The library documents the empty string as its answer for
  text in which it finds nothing to repair.
\<close>

definition backend_raising :: "py_Exception \<Rightarrow> backend" where
  "backend_raising e kwargs = Inl e"

definition backend_returning :: "ModelResponse \<Rightarrow> backend" where
  "backend_returning response kwargs = Inr response"

definition loads_returning :: "json \<Rightarrow> json_loads" where
  "loads_returning v s = Inr v"

text \<open>
  A backend that answers with what it was sent: the content of its completion is the
  \<open>tool_choice\<close> of the request, and its finish reason tells whether the request had the
  key \<open>tools\<close>.
\<close>

definition backend_reporting_tools :: backend where
  "backend_reporting_tools kwargs =
     Inr \<lparr> choices =
             [\<lparr> choice_message =
                  \<lparr> msg_content = kw_tool_choice kwargs, msg_tool_calls = None \<rparr>,
                choice_finish_reason =
                  Some (if kw_tools kwargs = None then ''no tools'' else ''tools'') \<rparr>],
           resp_usage = None \<rparr>"

definition is_mapping :: "json \<Rightarrow> bool" where
  "is_mapping v = (case v of JObject _ \<Rightarrow> True | _ \<Rightarrow> False)"

text \<open>
  What the amended reading of the tool-call contract says of one tool call: \<open>forwarded\<close>
  relates a backend tool call to the request handed to the caller (same id, same name,
  and as arguments the value the library returned for the text, or the structured value
  as it came); \<open>loads_returns\<close> holds when the library call made for the tool call, if
  any, returns.
\<close>

definition forwarded :: "json_loads \<Rightarrow> ToolCall \<Rightarrow> ToolCallRequest \<Rightarrow> bool" where
  "forwarded loads tc r =
     (request_id r = tc_id tc \<and> request_name r = fn_name (tc_function tc)
      \<and> (case fn_arguments (tc_function tc) of
            ArgText s \<Rightarrow> loads s = Inr (arguments r)
          | ArgValue v \<Rightarrow> arguments r = v))"

definition loads_returns :: "json_loads \<Rightarrow> ToolCall \<Rightarrow> bool" where
  "loads_returns loads tc =
     (case fn_arguments (tc_function tc) of
        ArgText s \<Rightarrow> (case loads s of Inl e \<Rightarrow> False | Inr v \<Rightarrow> True)
      | ArgValue v \<Rightarrow> True)"

section \<open>nanobot/agent/tools: the message tool\<close>

text \<open>
  \<open>MessageTool.execute(self, content: str, **kwargs)\<close>, called on an instance with the
  argument mapping of a tool call spread into keywords, \<open>tool.execute(**arguments)\<close>.
  Python binds the keywords before the body runs: the key \<open>self\<close> collides with the
  bound instance, a mapping without the key \<open>content\<close> leaves the required parameter
  unfilled, and both end in a TypeError; every other key goes to \<open>**kwargs\<close>. The
  annotation \<open>str\<close> is not checked. The body returns the acknowledgment.
\<close>

definition MessageTool_name :: string where
  "MessageTool_name = ''message''"

definition MessageTool_description :: string where
  "MessageTool_description =
     ''Send a message to the user. Use this when you want to communicate something.''"

definition MessageTool_parameters :: json where
  "MessageTool_parameters =
     JObject
       [(''type'', JString ''object''),
        (''properties'',
           JObject
             [(''content'',
                 JObject [(''type'', JString ''string''),
                          (''description'', JString ''The message content to send'')])]),
        (''required'', JArray [JString ''content''])]"

definition execute :: "(string \<times> json) list \<Rightarrow> py_Exception + string" where
  "execute kwargs =
     (if ''self'' \<in> set (map fst kwargs)
      then Inl (TypeError ''MessageTool.execute() got multiple values for argument self'')
      else if ''content'' \<notin> set (map fst kwargs)
      then Inl (TypeError ''MessageTool.execute() missing 1 required positional argument: content'')
      else Inr ''Message displayed'')"

section \<open>nanobot/bus: the message bus\<close>

text \<open>
  The two dataclasses of nanobot/bus/events.py; the timestamp is a clock reading.
\<close>

record UserMessage =
  um_content :: string
  um_timestamp :: int

record AssistantMessage =
  am_content :: string
  am_timestamp :: int

text \<open>
  \<open>asyncio.Queue()\<close> with the default \<open>maxsize=0\<close>: an unbounded queue, the pending items
  oldest first. \<open>put\<close> appends and never waits; \<open>get\<close> takes the oldest item, and on an
  empty queue it does not return (it suspends until an item arrives), which is the value
  \<open>None\<close> here; \<open>qsize\<close> counts the pending items.
\<close>

type_synonym 'a Queue = "'a list"

definition put :: "'a \<Rightarrow> 'a Queue \<Rightarrow> 'a Queue" where
  "put item q = q @ [item]"

definition get :: "'a Queue \<Rightarrow> ('a \<times> 'a Queue) option" where
  "get q = (case q of [] \<Rightarrow> None | item # rest \<Rightarrow> Some (item, rest))"

definition qsize :: "'a Queue \<Rightarrow> nat" where
  "qsize q = length q"

record MessageBus =
  inbound :: "UserMessage Queue"
  outbound :: "AssistantMessage Queue"

definition MessageBus_init :: MessageBus where
  "MessageBus_init = \<lparr> inbound = [], outbound = [] \<rparr>"

definition publish_inbound :: "UserMessage \<Rightarrow> MessageBus \<Rightarrow> MessageBus" where
  "publish_inbound msg bus = bus \<lparr> inbound := put msg (inbound bus) \<rparr>"

definition consume_inbound :: "MessageBus \<Rightarrow> (UserMessage \<times> MessageBus) option" where
  "consume_inbound bus =
     (case get (inbound bus) of
        None \<Rightarrow> None
      | Some (msg, rest) \<Rightarrow> Some (msg, bus \<lparr> inbound := rest \<rparr>))"

definition publish_outbound :: "AssistantMessage \<Rightarrow> MessageBus \<Rightarrow> MessageBus" where
  "publish_outbound msg bus = bus \<lparr> outbound := put msg (outbound bus) \<rparr>"

definition consume_outbound :: "MessageBus \<Rightarrow> (AssistantMessage \<times> MessageBus) option" where
  "consume_outbound bus =
     (case get (outbound bus) of
        None \<Rightarrow> None
      | Some (msg, rest) \<Rightarrow> Some (msg, bus \<lparr> outbound := rest \<rparr>))"

definition inbound_size :: "MessageBus \<Rightarrow> nat" where
  "inbound_size bus = qsize (inbound bus)"

definition outbound_size :: "MessageBus \<Rightarrow> nat" where
  "outbound_size bus = qsize (outbound bus)"

text \<open>
  A use of the bus is a sequence of calls. \<open>run_bus\<close> performs them in order and lists
  what the consume calls returned. A consume call on an empty queue stays suspended: it
  returns nothing and leaves the bus as it is.
\<close>

datatype bus_op =
    PublishInbound UserMessage
  | ConsumeInbound
  | PublishOutbound AssistantMessage
  | ConsumeOutbound

datatype delivery = FromInbound UserMessage | FromOutbound AssistantMessage

fun run_bus :: "bus_op list \<Rightarrow> MessageBus \<Rightarrow> delivery list \<times> MessageBus" where
  "run_bus [] bus = ([], bus)"
| "run_bus (PublishInbound msg # ops) bus = run_bus ops (publish_inbound msg bus)"
| "run_bus (PublishOutbound msg # ops) bus = run_bus ops (publish_outbound msg bus)"
| "run_bus (ConsumeInbound # ops) bus =
     (case consume_inbound bus of
        None \<Rightarrow> run_bus ops bus
      | Some (msg, bus') \<Rightarrow>
          (case run_bus ops bus' of (ds, b) \<Rightarrow> (FromInbound msg # ds, b)))"
| "run_bus (ConsumeOutbound # ops) bus =
     (case consume_outbound bus of
        None \<Rightarrow> run_bus ops bus
      | Some (msg, bus') \<Rightarrow>
          (case run_bus ops bus' of (ds, b) \<Rightarrow> (FromOutbound msg # ds, b)))"

fun published_inbound :: "bus_op list \<Rightarrow> UserMessage list" where
  "published_inbound [] = []"
| "published_inbound (PublishInbound msg # ops) = msg # published_inbound ops"
| "published_inbound (_ # ops) = published_inbound ops"

fun published_outbound :: "bus_op list \<Rightarrow> AssistantMessage list" where
  "published_outbound [] = []"
| "published_outbound (PublishOutbound msg # ops) = msg # published_outbound ops"
| "published_outbound (_ # ops) = published_outbound ops"

fun consumed_inbound :: "delivery list \<Rightarrow> UserMessage list" where
  "consumed_inbound [] = []"
| "consumed_inbound (FromInbound msg # ds) = msg # consumed_inbound ds"
| "consumed_inbound (_ # ds) = consumed_inbound ds"

fun consumed_outbound :: "delivery list \<Rightarrow> AssistantMessage list" where
  "consumed_outbound [] = []"
| "consumed_outbound (FromOutbound msg # ds) = msg # consumed_outbound ds"
| "consumed_outbound (_ # ds) = consumed_outbound ds"

fun is_inbound_op :: "bus_op \<Rightarrow> bool" where
  "is_inbound_op (PublishInbound _) = True"
| "is_inbound_op ConsumeInbound = True"
| "is_inbound_op _ = False"

section \<open>nanobot/config and nanobot/cli: building the provider\<close>

text \<open>
  The configuration classes of nanobot/config/schema.py that \<open>_make_provider\<close> and the
  \<open>agent\<close> command read. The tools section plays no part in them and is left out.
\<close>

record AgentDefaults =
  cfg_workspace :: string
  cfg_model :: string
  cfg_max_tokens :: int
  cfg_temperature :: real
  cfg_max_tool_iterations :: int
  cfg_memory_window :: int

record ProviderConfig =
  cfg_api_key :: string
  cfg_api_base :: "string option"

record ProvidersConfig =
  openrouter :: ProviderConfig
  ollama :: ProviderConfig

record Config =
  agents_defaults :: AgentDefaults
  providers :: ProvidersConfig

definition get_api_key :: "Config \<Rightarrow> string option \<Rightarrow> string" where
  "get_api_key config provider =
     (if provider = Some ''ollama'' then cfg_api_key (ollama (providers config))
      else cfg_api_key (openrouter (providers config)))"

definition get_api_base :: "Config \<Rightarrow> string option \<Rightarrow> string" where
  "get_api_base config provider =
     (if provider = Some ''ollama''
      then or_default (cfg_api_base (ollama (providers config))) ''http://localhost:11434''
      else or_default (cfg_api_base (openrouter (providers config)))
             ''https://openrouter.ai/api/v1'')"

text \<open>
  nanobot/providers/registry.py: the fields of \<open>ProviderSpec\<close> that the lookup reads or
  that tell the provider apart, and the one registered provider.
\<close>

record ProviderSpec =
  spec_name :: string
  spec_keywords :: "string list"
  spec_env_key :: string
  spec_display_name :: string
  spec_is_gateway :: bool
  spec_is_local :: bool

definition PROVIDERS :: "ProviderSpec list" where
  "PROVIDERS =
     [\<lparr> spec_name = ''openrouter'', spec_keywords = [''openrouter''],
        spec_env_key = ''OPENROUTER_API_KEY'', spec_display_name = ''OpenRouter'',
        spec_is_gateway = True, spec_is_local = False \<rparr>]"

text \<open>\<open>str.lower\<close> on ASCII text, \<open>kw in s\<close> and \<open>s.split(sep)\<close>.\<close>

definition lower_char :: "char \<Rightarrow> char" where
  "lower_char c =
     (let n = (of_char c :: nat) in if 65 \<le> n \<and> n \<le> 90 then char_of (n + 32) else c)"

definition lower :: "string \<Rightarrow> string" where
  "lower s = map lower_char s"

fun starts_with :: "string \<Rightarrow> string \<Rightarrow> bool" where
  "starts_with [] s = True"
| "starts_with (c # cs) [] = False"
| "starts_with (c # cs) (d # ds) = (c = d \<and> starts_with cs ds)"

fun contains :: "string \<Rightarrow> string \<Rightarrow> bool" where
  "contains kw [] = (kw = [])"
| "contains kw (c # cs) = (starts_with kw (c # cs) \<or> contains kw cs)"

fun split :: "char \<Rightarrow> string \<Rightarrow> string list" where
  "split sep [] = [[]]"
| "split sep (c # cs) =
     (if c = sep then [] # split sep cs
      else (case split sep cs of
              [] \<Rightarrow> [[c]]
            | part # parts \<Rightarrow> (c # part) # parts))"

fun find_by_model_in :: "ProviderSpec list \<Rightarrow> string \<Rightarrow> ProviderSpec option" where
  "find_by_model_in [] model_lower = None"
| "find_by_model_in (spec # specs) model_lower =
     (if list_ex (\<lambda>kw. contains kw model_lower) (spec_keywords spec) then Some spec
      else find_by_model_in specs model_lower)"

definition find_by_model :: "string \<Rightarrow> ProviderSpec option" where
  "find_by_model m = find_by_model_in PROVIDERS (lower m)"

text \<open>
  The constructor call. \<open>LiteLLMProvider.__init__\<close> declares the parameters \<open>api_key\<close>,
  \<open>api_base\<close> and \<open>default_model\<close>, each with a default, and no \<open>**kwargs\<close>: Python
  rejects a call with any other keyword by a TypeError before the body runs. The body
  keeps the three values; its writes to the process environment and to the module
  \<open>litellm\<close> are not part of the model.
\<close>

definition LiteLLMProvider_parameters :: "string list" where
  "LiteLLMProvider_parameters = [''api_key'', ''api_base'', ''default_model'']"

definition LiteLLMProvider_init ::
  "(string \<times> string option) list \<Rightarrow> py_Exception + LiteLLMProvider" where
  "LiteLLMProvider_init kwargs =
     (case find (\<lambda>k. k \<notin> set LiteLLMProvider_parameters) (map fst kwargs) of
        Some k \<Rightarrow>
          Inl (TypeError (''LiteLLMProvider.__init__() got an unexpected keyword argument '' @ k))
      | None \<Rightarrow>
          Inr \<lparr> api_key = (case map_of kwargs ''api_key'' of None \<Rightarrow> None | Some v \<Rightarrow> v),
                api_base = (case map_of kwargs ''api_base'' of None \<Rightarrow> None | Some v \<Rightarrow> v),
                default_model =
                  (case map_of kwargs ''default_model'' of
                     Some (Some m) \<Rightarrow> m
                   | _ \<Rightarrow> ''openrouter/anthropic/claude-3-5-sonnet'') \<rparr>)"

text \<open>
  \<open>_make_provider\<close> ends in one of three ways: it returns a provider, it raises
  \<open>typer.Exit(1)\<close> after printing that no API key is configured, or the constructor call
  raises.
\<close>

datatype make_provider_raise = Exit int | Raised py_Exception

definition make_provider :: "Config \<Rightarrow> string option \<Rightarrow> make_provider_raise + LiteLLMProvider" where
  "make_provider config model_arg =
     (let model = or_default model_arg (cfg_model (agents_defaults config));
          model_only = (if CHR ''/'' \<in> set model then last (split (CHR ''/'') model) else model);
          spec = find_by_model model_only;
          provider_name = map_option spec_name spec;
          key = (if provider_name = Some ''ollama''
                 then get_api_key config (Some ''ollama'')
                 else get_api_key config None);
          base = (if provider_name = Some ''ollama''
                  then get_api_base config (Some ''ollama'')
                  else get_api_base config None)
      in if key = [] \<and> provider_name \<noteq> Some ''ollama'' then Inl (Exit 1)
         else (case LiteLLMProvider_init
                      [(''api_key'', Some key), (''api_base'', Some base),
                       (''default_model'', Some model), (''provider_name'', provider_name)] of
                 Inl e \<Rightarrow> Inl (Raised e)
               | Inr provider \<Rightarrow> Inr provider))"

section \<open>nanobot/agent: the agent loop\<close>

text \<open>
  Modelled from the spec: the module nanobot/agent/loop.py, with \<open>AgentLoop\<close> and its
  \<open>process_direct\<close>, is not among the sources; only its caller, the \<open>agent\<close> command, is.
  What follows is the data model of section 3 and the algorithm of section 4.4 of the
  specification, step by step. The iteration cap and the memory window are counts.
\<close>

datatype role = System | User | Assistant | Tool

record SessionMessage =
  sm_role :: role
  sm_content :: "string option"
  sm_tool_calls :: "ToolCallRequest list"
  sm_tool_call_id :: "string option"

record ToolResult =
  result_call_id :: string
  result_content :: string
  is_error :: bool

text \<open>
  The collaborators of the loop act on the outside world, a state \<open>'w\<close> that every call
  takes and returns. A tool may raise; the provider, by its contract, does not.
\<close>

record 'w AgentTool =
  tool_name :: string
  tool_description :: string
  tool_parameters :: json
  tool_execute :: "json \<Rightarrow> 'w \<Rightarrow> (py_Exception + string) \<times> 'w"

record 'w AgentLoop =
  provider_chat :: "SessionMessage list \<Rightarrow> json list \<Rightarrow> 'w \<Rightarrow> LLMResponse \<times> 'w"
  registry :: "'w AgentTool list"
  max_iterations :: nat
  memory_window :: nat

text \<open>What a turn does, in the order it does it.\<close>

datatype event =
    ProviderCall "SessionMessage list"
  | Progress string
  | ToolRun string json

fun is_provider_call :: "event \<Rightarrow> bool" where
  "is_provider_call (ProviderCall _) = True"
| "is_provider_call _ = False"

definition provider_calls :: "event list \<Rightarrow> nat" where
  "provider_calls evs = length (filter is_provider_call evs)"

definition tool_schema :: "'w AgentTool \<Rightarrow> json" where
  "tool_schema t =
     JObject [(''name'', JString (tool_name t)),
              (''description'', JString (tool_description t)),
              (''parameters'', tool_parameters t)]"

definition user_message :: "string \<Rightarrow> SessionMessage" where
  "user_message txt =
     \<lparr> sm_role = User, sm_content = Some txt, sm_tool_calls = [], sm_tool_call_id = None \<rparr>"

definition assistant_message :: "LLMResponse \<Rightarrow> SessionMessage" where
  "assistant_message r =
     \<lparr> sm_role = Assistant, sm_content = content r, sm_tool_calls = tool_calls r,
       sm_tool_call_id = None \<rparr>"

definition tool_message :: "ToolResult \<Rightarrow> SessionMessage" where
  "tool_message res =
     \<lparr> sm_role = Tool, sm_content = Some (result_content res), sm_tool_calls = [],
       sm_tool_call_id = Some (result_call_id res) \<rparr>"

text \<open>
  Modelled from the spec: step 2d of section 4.4 for one request (the dispatch code of
  nanobot/agent/loop.py is missing): look the tool up by name; an unknown tool gives an error
  result; otherwise the progress sink is told, the tool runs, and an exception it raises
  becomes an error result. The specification does not fix the wording of these texts.
\<close>

definition dispatch_tool ::
  "'w AgentLoop \<Rightarrow> (string \<Rightarrow> 'w \<Rightarrow> 'w) \<Rightarrow> ToolCallRequest \<Rightarrow> 'w
     \<Rightarrow> ToolResult \<times> 'w \<times> event list" where
  "dispatch_tool loop progress_sink req w =
     (case find (\<lambda>t. tool_name t = request_name req) (registry loop) of
        None \<Rightarrow>
          (\<lparr> result_call_id = request_id req,
             result_content = ''Error: unknown tool '' @ request_name req,
             is_error = True \<rparr>, w, [])
      | Some t \<Rightarrow>
          (let w1 = progress_sink (''Running tool '' @ request_name req) w
           in case tool_execute t (arguments req) w1 of
                (Inl e, w2) \<Rightarrow>
                  (\<lparr> result_call_id = request_id req,
                     result_content = ''Error: '' @ str e,
                     is_error = True \<rparr>, w2,
                   [Progress (''Running tool '' @ request_name req),
                    ToolRun (request_name req) (arguments req)])
              | (Inr out, w2) \<Rightarrow>
                  (\<lparr> result_call_id = request_id req,
                     result_content = out,
                     is_error = False \<rparr>, w2,
                   [Progress (''Running tool '' @ request_name req),
                    ToolRun (request_name req) (arguments req)])))"

text \<open>The requests of one response, in the order issued; each answer is appended.\<close>

fun dispatch_tools ::
  "'w AgentLoop \<Rightarrow> (string \<Rightarrow> 'w \<Rightarrow> 'w) \<Rightarrow> ToolCallRequest list \<Rightarrow> SessionMessage list
     \<Rightarrow> 'w \<Rightarrow> event list \<Rightarrow> SessionMessage list \<times> 'w \<times> event list" where
  "dispatch_tools loop progress_sink [] history w evs = (history, w, evs)"
| "dispatch_tools loop progress_sink (req # reqs) history w evs =
     (case dispatch_tool loop progress_sink req w of
        (res, w', new) \<Rightarrow>
          dispatch_tools loop progress_sink reqs (history @ [tool_message res]) w' (evs @ new))"

definition limit_reached_text :: string where
  "limit_reached_text = ''Iteration limit reached without a final answer.''"

text \<open>
  Modelled from the spec: steps 2 and 3 of section 4.4 (the loop of
  nanobot/agent/loop.py is missing): at most \<open>n\<close> more rounds. A round calls the provider with the whole
  history and the schemas of the registered tools. A response with finish reason
  "error", or without tool calls, ends the turn with its content as the answer;
  otherwise the tools are dispatched and the next round begins. With no round left the
  answer says that the limit was reached.
\<close>

fun iterate ::
  "'w AgentLoop \<Rightarrow> (string \<Rightarrow> 'w \<Rightarrow> 'w) \<Rightarrow> nat \<Rightarrow> SessionMessage list \<Rightarrow> 'w \<Rightarrow> event list
     \<Rightarrow> string option \<times> SessionMessage list \<times> 'w \<times> event list" where
  "iterate loop progress_sink 0 history w evs = (Some limit_reached_text, history, w, evs)"
| "iterate loop progress_sink (Suc n) history w evs =
     (case provider_chat loop history (map tool_schema (registry loop)) w of
        (r, w1) \<Rightarrow>
          if finish_reason r = ''error'' \<or> tool_calls r = []
          then (content r, history @ [assistant_message r], w1, evs @ [ProviderCall history])
          else (case dispatch_tools loop progress_sink (tool_calls r)
                       (history @ [assistant_message r]) w1 (evs @ [ProviderCall history]) of
                  (history', w2, evs') \<Rightarrow> iterate loop progress_sink n history' w2 evs'))"

text \<open>
  Modelled from the spec: step 4 of section 4.4, the memory window (the trimming code of
  nanobot/agent/loop.py is missing). A system message at the head of the history is pinned; of
  the other messages the oldest are evicted, one at a time, until the history is no
  longer than the window or nothing but the pinned message is left.
\<close>

definition pinned :: "SessionMessage list \<Rightarrow> SessionMessage list" where
  "pinned history =
     (case history of
        [] \<Rightarrow> []
      | m # _ \<Rightarrow> if sm_role m = System then [m] else [])"

definition unpinned :: "SessionMessage list \<Rightarrow> SessionMessage list" where
  "unpinned history = drop (length (pinned history)) history"

fun evict :: "nat \<Rightarrow> nat \<Rightarrow> SessionMessage list \<Rightarrow> SessionMessage list" where
  "evict window kept [] = []"
| "evict window kept (m # ms) =
     (if kept + length (m # ms) \<le> window then m # ms else evict window kept ms)"

definition trim :: "nat \<Rightarrow> SessionMessage list \<Rightarrow> SessionMessage list" where
  "trim window history =
     pinned history @ evict window (length (pinned history)) (unpinned history)"

text \<open>
  Modelled from the spec: \<open>process_direct\<close> of the missing nanobot/agent/loop.py, steps
  1 to 5 of section 4.4 on the session store. \<open>run_turn\<close> is the turn before the
  trim: the user message is appended to the history of the session, a new session
  starting empty, and the rounds follow.
\<close>

record 'w TurnResult =
  final_text :: "string option"
  sessions :: "string \<rightharpoonup> SessionMessage list"
  world :: 'w
  events :: "event list"

definition run_turn ::
  "'w AgentLoop \<Rightarrow> (string \<rightharpoonup> SessionMessage list) \<Rightarrow> string \<Rightarrow> string
     \<Rightarrow> (string \<Rightarrow> 'w \<Rightarrow> 'w) \<Rightarrow> 'w \<Rightarrow> string option \<times> SessionMessage list \<times> 'w \<times> event list" where
  "run_turn loop store user_text session_id progress_sink w =
     iterate loop progress_sink (max_iterations loop)
       ((case store session_id of None \<Rightarrow> [] | Some history \<Rightarrow> history)
          @ [user_message user_text])
       w []"

definition process_direct ::
  "'w AgentLoop \<Rightarrow> (string \<rightharpoonup> SessionMessage list) \<Rightarrow> string \<Rightarrow> string
     \<Rightarrow> (string \<Rightarrow> 'w \<Rightarrow> 'w) \<Rightarrow> 'w \<Rightarrow> 'w TurnResult" where
  "process_direct loop store user_text session_id progress_sink w =
     (case run_turn loop store user_text session_id progress_sink w of
        (answer, history, w', evs) \<Rightarrow>
          \<lparr> final_text = answer,
            sessions = store(session_id \<mapsto> trim (memory_window loop) history),
            world = w',
            events = evs \<rparr>)"

text \<open>
  Modelled from the spec: section 3 has a session created, empty, on first reference to
  its id and mutated only by the agent loop that owns it. The session stores that exist
  are therefore the ones \<open>run_turns\<close> reaches from the empty store by completed turns,
  each a user text and a session id. In such a store no message has the system role:
  the loop appends user, assistant and tool messages only.
\<close>

fun run_turns ::
  "'w AgentLoop \<Rightarrow> (string \<Rightarrow> 'w \<Rightarrow> 'w) \<Rightarrow> (string \<times> string) list
     \<Rightarrow> (string \<rightharpoonup> SessionMessage list) \<Rightarrow> 'w
     \<Rightarrow> (string \<rightharpoonup> SessionMessage list) \<times> 'w" where
  "run_turns loop progress_sink [] store w = (store, w)"
| "run_turns loop progress_sink ((user_text, session_id) # turns) store w =
     (case process_direct loop store user_text session_id progress_sink w of
        result \<Rightarrow> run_turns loop progress_sink turns (sessions result) (world result))"

definition system_free :: "SessionMessage list \<Rightarrow> bool" where
  "system_free history = (System \<notin> set (map sm_role history))"

text \<open>
  Collaborators to run the loop on concrete inputs: a provider that answers every call
  with the same response, a progress sink that does nothing, and a tool that returns a
  fixed text.
\<close>

definition provider_answering ::
  "LLMResponse \<Rightarrow> SessionMessage list \<Rightarrow> json list \<Rightarrow> unit \<Rightarrow> LLMResponse \<times> unit" where
  "provider_answering r history schemas w = (r, w)"

definition silent_sink :: "string \<Rightarrow> unit \<Rightarrow> unit" where
  "silent_sink txt w = w"

definition tool_returning :: "string \<Rightarrow> json \<Rightarrow> unit \<Rightarrow> (py_Exception + string) \<times> unit" where
  "tool_returning out args w = (Inr out, w)"

section \<open>Properties of the provider\<close>

lemma parse_tool_call_returns:
  "loads_returns loads tc \<Longrightarrow> \<exists>r. parse_tool_call loads tc = Inr r \<and> forwarded loads tc r"
  by (auto simp: loads_returns_def parse_tool_call_def forwarded_def
           split: raw_arguments.splits sum.splits)

lemma parse_tool_call_raises:
  "\<not> loads_returns loads tc \<Longrightarrow> \<exists>e. parse_tool_call loads tc = Inl e"
  by (auto simp: loads_returns_def parse_tool_call_def split: raw_arguments.splits sum.splits)

lemma parse_tool_calls_returns:
  "list_all (loads_returns loads) tcs \<Longrightarrow>
     \<exists>rs. parse_tool_calls loads tcs = Inr rs \<and> list_all2 (forwarded loads) tcs rs"
proof (induction tcs)
  case Nil
  then show ?case by simp
next
  case (Cons tc tcs)
  from Cons.prems obtain r where r: "parse_tool_call loads tc = Inr r" "forwarded loads tc r"
    using parse_tool_call_returns by fastforce
  from Cons obtain rs where rs: "parse_tool_calls loads tcs = Inr rs"
    "list_all2 (forwarded loads) tcs rs"
    by auto
  show ?case using r rs by simp
qed

lemma parse_tool_calls_raises:
  "\<not> list_all (loads_returns loads) tcs \<Longrightarrow> \<exists>e. parse_tool_calls loads tcs = Inl e"
proof (induction tcs)
  case Nil
  then show ?case by simp
next
  case (Cons tc tcs)
  show ?case
  proof (cases "loads_returns loads tc")
    case True
    then obtain r where "parse_tool_call loads tc = Inr r"
      using parse_tool_call_returns by blast
    moreover from True Cons obtain e where "parse_tool_calls loads tcs = Inl e" by auto
    ultimately show ?thesis by simp
  next
    case False
    then obtain e where "parse_tool_call loads tc = Inl e"
      using parse_tool_call_raises by blast
    then show ?thesis by simp
  qed
qed


text \<open>
  C7: the one request that \<open>chat\<close> hands to the backend carries the tool schemas exactly
  when the caller gave a non-empty list, then unchanged and together with the tool choice
  "auto"; for an absent or empty list the request has neither key. What \<open>chat\<close> returns
  is what the backend answers to that request.
\<close>

theorem chat_tools_passthrough:
  "chat_attempt self acompletion loads messages tools model max_tokens temperature =
     (case acompletion
             \<lparr> kw_model = (case model of None \<Rightarrow> default_model self
                           | Some m \<Rightarrow> if m = [] then default_model self else m),
               kw_messages = messages,
               kw_max_tokens = (if max_tokens < 1 then 1 else max_tokens),
               kw_temperature = temperature,
               kw_api_key = (case api_key self of None \<Rightarrow> None
                             | Some k \<Rightarrow> if k = [] then None else Some k),
               kw_tools = (case tools of None \<Rightarrow> None
                           | Some ts \<Rightarrow> if ts = [] then None else Some ts),
               kw_tool_choice = (case tools of None \<Rightarrow> None
                                 | Some ts \<Rightarrow> if ts = [] then None else Some ''auto'') \<rparr> of
        Inl e \<Rightarrow> Inl e
      | Inr response \<Rightarrow> parse_response loads response)
   \<and> chat self acompletion loads messages tools model max_tokens temperature =
     (case acompletion
             \<lparr> kw_model = (case model of None \<Rightarrow> default_model self
                           | Some m \<Rightarrow> if m = [] then default_model self else m),
               kw_messages = messages,
               kw_max_tokens = (if max_tokens < 1 then 1 else max_tokens),
               kw_temperature = temperature,
               kw_api_key = (case api_key self of None \<Rightarrow> None
                             | Some k \<Rightarrow> if k = [] then None else Some k),
               kw_tools = (case tools of None \<Rightarrow> None
                           | Some ts \<Rightarrow> if ts = [] then None else Some ts),
               kw_tool_choice = (case tools of None \<Rightarrow> None
                                 | Some ts \<Rightarrow> if ts = [] then None else Some ''auto'') \<rparr> of
        Inl e \<Rightarrow> Inr (error_response e)
      | Inr response \<Rightarrow>
          (case parse_response loads response of
             Inl e \<Rightarrow> Inr (error_response e)
           | Inr r \<Rightarrow> Inr r))
   \<and> ((\<exists>ts. tools = Some ts \<and> ts \<noteq> []
          \<and> kw_tools (chat_kwargs self messages tools model max_tokens temperature) = Some ts
          \<and> kw_tool_choice (chat_kwargs self messages tools model max_tokens temperature)
              = Some ''auto'')
       \<or> ((tools = None \<or> tools = Some [])
          \<and> kw_tools (chat_kwargs self messages tools model max_tokens temperature) = None
          \<and> kw_tool_choice (chat_kwargs self messages tools model max_tokens temperature)
              = None))"
proof -
  have req: "chat_kwargs self messages tools model max_tokens temperature =
             \<lparr> kw_model = (case model of None \<Rightarrow> default_model self
                           | Some m \<Rightarrow> if m = [] then default_model self else m),
               kw_messages = messages,
               kw_max_tokens = (if max_tokens < 1 then 1 else max_tokens),
               kw_temperature = temperature,
               kw_api_key = (case api_key self of None \<Rightarrow> None
                             | Some k \<Rightarrow> if k = [] then None else Some k),
               kw_tools = (case tools of None \<Rightarrow> None
                           | Some ts \<Rightarrow> if ts = [] then None else Some ts),
               kw_tool_choice = (case tools of None \<Rightarrow> None
                                 | Some ts \<Rightarrow> if ts = [] then None else Some ''auto'') \<rparr>"
    by (cases tools; cases "api_key self")
       (auto simp: chat_kwargs_def or_default_def max_def split: option.splits)
  have a: "chat_attempt self acompletion loads messages tools model max_tokens temperature =
     (case acompletion (chat_kwargs self messages tools model max_tokens temperature) of
        Inl e \<Rightarrow> Inl e
      | Inr response \<Rightarrow> parse_response loads response)"
    by (simp add: chat_attempt_def)
  have c: "chat self acompletion loads messages tools model max_tokens temperature =
     (case acompletion (chat_kwargs self messages tools model max_tokens temperature) of
        Inl e \<Rightarrow> Inr (error_response e)
      | Inr response \<Rightarrow>
          (case parse_response loads response of
             Inl e \<Rightarrow> Inr (error_response e)
           | Inr r \<Rightarrow> Inr r))"
    by (simp add: chat_def chat_attempt_def split: sum.splits)
  have d: "(\<exists>ts. tools = Some ts \<and> ts \<noteq> []
          \<and> kw_tools (chat_kwargs self messages tools model max_tokens temperature) = Some ts
          \<and> kw_tool_choice (chat_kwargs self messages tools model max_tokens temperature)
              = Some ''auto'')
       \<or> ((tools = None \<or> tools = Some [])
          \<and> kw_tools (chat_kwargs self messages tools model max_tokens temperature) = None
          \<and> kw_tool_choice (chat_kwargs self messages tools model max_tokens temperature)
              = None)"
    by (cases tools) (auto simp: chat_kwargs_def)
  from a c d show ?thesis unfolding req by blast
qed

theorem chat_tools_passthrough_witness:
  "chat \<lparr> api_key = Some ''sk'', api_base = None, default_model = ''m'' \<rparr>
      backend_reporting_tools (loads_returning JNull)
      [] (Some [JObject [(''name'', JString ''message'')]]) None 4096 0.7
     = Inr \<lparr> content = Some ''auto'', tool_calls = [], finish_reason = ''tools'', usage = [] \<rparr>
   \<and> chat \<lparr> api_key = Some ''sk'', api_base = None, default_model = ''m'' \<rparr>
      backend_reporting_tools (loads_returning JNull)
      [] (Some []) None 4096 0.7
     = Inr \<lparr> content = None, tool_calls = [], finish_reason = ''no tools'', usage = [] \<rparr>
   \<and> chat \<lparr> api_key = Some ''sk'', api_base = None, default_model = ''m'' \<rparr>
      backend_reporting_tools (loads_returning JNull)
      [] None None 4096 0.7
     = Inr \<lparr> content = None, tool_calls = [], finish_reason = ''no tools'', usage = [] \<rparr>"
  using chat_tools_passthrough
    [where tools = "Some [JObject [(''name'', JString ''message'')]]"
       and self = "\<lparr> api_key = Some ''sk'', api_base = None, default_model = ''m'' \<rparr>"
       and acompletion = backend_reporting_tools and loads = "loads_returning JNull"
       and messages = "[]" and model = None and max_tokens = 4096 and temperature = "0.7"]
    chat_tools_passthrough
    [where tools = "Some []"
       and self = "\<lparr> api_key = Some ''sk'', api_base = None, default_model = ''m'' \<rparr>"
       and acompletion = backend_reporting_tools and loads = "loads_returning JNull"
       and messages = "[]" and model = None and max_tokens = 4096 and temperature = "0.7"]
    chat_tools_passthrough
    [where tools = None
       and self = "\<lparr> api_key = Some ''sk'', api_base = None, default_model = ''m'' \<rparr>"
       and acompletion = backend_reporting_tools and loads = "loads_returning JNull"
       and messages = "[]" and model = None and max_tokens = 4096 and temperature = "0.7"]
  by (simp add: backend_reporting_tools_def parse_response_def or_default_def usage_dict_def)

text \<open>
  C1: \<open>chat\<close> always returns a response. Whenever the backend call raises an exception,
  or it returns and parsing its completion raises one, the response is the error
  response: its content is "Error calling LLM: " followed by the text of the exception,
  and its finish reason is "error".
\<close>

theorem chat_never_raises:
  "(\<exists>r. chat self acompletion loads messages tools model max_tokens temperature = Inr r)
   \<and> (\<forall>e. (acompletion (chat_kwargs self messages tools model max_tokens temperature) = Inl e
            \<or> (\<exists>response.
                  acompletion (chat_kwargs self messages tools model max_tokens temperature)
                    = Inr response
                  \<and> parse_response loads response = Inl e))
          \<longrightarrow> chat self acompletion loads messages tools model max_tokens temperature
                = Inr \<lparr> content = Some (''Error calling LLM: '' @ str e), tool_calls = [],
                        finish_reason = ''error'', usage = [] \<rparr>)"
  by (auto simp: chat_def chat_attempt_def error_response_def split: sum.splits)

theorem chat_never_raises_witness:
  "chat \<lparr> api_key = Some ''sk'', api_base = None, default_model = ''m'' \<rparr>
        (backend_raising (Exception ''connection refused'')) (loads_returning JNull)
        [JObject [(''role'', JString ''user''), (''content'', JString ''hi'')]] None None 4096 0.7
     = Inr \<lparr> content = Some ''Error calling LLM: connection refused'', tool_calls = [],
             finish_reason = ''error'', usage = [] \<rparr>
   \<and> chat \<lparr> api_key = Some ''sk'', api_base = None, default_model = ''m'' \<rparr>
        (backend_returning \<lparr> choices = [], resp_usage = None \<rparr>) (loads_returning JNull)
        [JObject [(''role'', JString ''user''), (''content'', JString ''hi'')]] None None 4096 0.7
     = Inr \<lparr> content = Some ''Error calling LLM: list index out of range'', tool_calls = [],
             finish_reason = ''error'', usage = [] \<rparr>"
  using chat_never_raises
    [where self = "\<lparr> api_key = Some ''sk'', api_base = None, default_model = ''m'' \<rparr>"
       and acompletion = "backend_raising (Exception ''connection refused'')"
       and loads = "loads_returning JNull"
       and messages = "[JObject [(''role'', JString ''user''), (''content'', JString ''hi'')]]"
       and tools = None and model = None and max_tokens = 4096 and temperature = "0.7"]
    chat_never_raises
    [where self = "\<lparr> api_key = Some ''sk'', api_base = None, default_model = ''m'' \<rparr>"
       and acompletion = "backend_returning \<lparr> choices = [], resp_usage = None \<rparr>"
       and loads = "loads_returning JNull"
       and messages = "[JObject [(''role'', JString ''user''), (''content'', JString ''hi'')]]"
       and tools = None and model = None and max_tokens = 4096 and temperature = "0.7"]
  by (simp add: backend_raising_def backend_returning_def parse_response_def)

text \<open>
  C2, as stated, fails: the provider hands the text to \<open>json_repair.loads\<close> and forwards
  whatever comes back. For the empty text the library returns the empty string, and the
  request reaches the caller with that string as its arguments: no mapping, and no
  diagnostic note.
\<close>

theorem parse_response_diagnostic_counterexample:
  "parse_response (loads_returning (JString ''''))
     \<lparr> choices =
         [\<lparr> choice_message =
              \<lparr> msg_content = None,
                msg_tool_calls =
                  Some [\<lparr> tc_id = ''call_1'',
                          tc_function = \<lparr> fn_name = ''message'', fn_arguments = ArgText '''' \<rparr> \<rparr>] \<rparr>,
            choice_finish_reason = Some ''tool_calls'' \<rparr>],
       resp_usage = None \<rparr>
   = Inr \<lparr> content = None,
           tool_calls = [\<lparr> request_id = ''call_1'', request_name = ''message'',
                           arguments = JString '''' \<rparr>],
           finish_reason = ''tool_calls'',
           usage = [] \<rparr>
   \<and> \<not> is_mapping (JString '''')"
  by (simp add: parse_response_def parse_tool_call_def loads_returning_def or_default_def
        usage_dict_def is_mapping_def)

text \<open>
  C2, amended: when the library call returns for every tool call that carries text, the
  parsed response holds one request per tool call, in the same order, each with the id
  and the name of its tool call and, as arguments, exactly the value the library
  returned for the text (a structured value is passed on as it came). When the library
  call raises for one of them, parsing raises.
\<close>

theorem parse_response_forwards_tool_calls:
  assumes "choices response = choice # rest"
      and "msg_tool_calls (choice_message choice) = Some tcs"
  shows "(list_all (loads_returns loads) tcs \<longrightarrow>
            (\<exists>r. parse_response loads response = Inr r
                \<and> list_all2 (forwarded loads) tcs (tool_calls r)))
       \<and> (\<not> list_all (loads_returns loads) tcs \<longrightarrow>
            (\<exists>e. parse_response loads response = Inl e))"
proof (intro conjI impI)
  assume "list_all (loads_returns loads) tcs"
  then obtain rs where "parse_tool_calls loads tcs = Inr rs" "list_all2 (forwarded loads) tcs rs"
    using parse_tool_calls_returns by blast
  with assms show "\<exists>r. parse_response loads response = Inr r
                \<and> list_all2 (forwarded loads) tcs (tool_calls r)"
    by (cases tcs) (auto simp: parse_response_def)
next
  assume "\<not> list_all (loads_returns loads) tcs"
  then obtain e where "parse_tool_calls loads tcs = Inl e"
    using parse_tool_calls_raises by blast
  moreover from \<open>\<not> list_all (loads_returns loads) tcs\<close> have "tcs \<noteq> []" by auto
  ultimately show "\<exists>e. parse_response loads response = Inl e"
    using assms by (auto simp: parse_response_def)
qed

theorem parse_response_forwards_tool_calls_witness:
  "list_all (loads_returns (loads_returning (JObject [(''content'', JString ''hi'')])))
     [\<lparr> tc_id = ''call_1'',
        tc_function = \<lparr> fn_name = ''message'', fn_arguments = ArgText ''{content: hi}'' \<rparr> \<rparr>]
   \<and> (\<exists>r. parse_response (loads_returning (JObject [(''content'', JString ''hi'')]))
             \<lparr> choices =
                 [\<lparr> choice_message =
                      \<lparr> msg_content = None,
                        msg_tool_calls =
                          Some [\<lparr> tc_id = ''call_1'',
                                  tc_function = \<lparr> fn_name = ''message'',
                                                  fn_arguments = ArgText ''{content: hi}'' \<rparr> \<rparr>] \<rparr>,
                    choice_finish_reason = Some ''tool_calls'' \<rparr>],
               resp_usage = None \<rparr> = Inr r
          \<and> list_all2 (forwarded (loads_returning (JObject [(''content'', JString ''hi'')])))
               [\<lparr> tc_id = ''call_1'',
                  tc_function = \<lparr> fn_name = ''message'',
                                  fn_arguments = ArgText ''{content: hi}'' \<rparr> \<rparr>]
               (tool_calls r))"
  using parse_response_forwards_tool_calls
    [where response =
        "\<lparr> choices =
            [\<lparr> choice_message =
                 \<lparr> msg_content = None,
                   msg_tool_calls =
                     Some [\<lparr> tc_id = ''call_1'',
                             tc_function = \<lparr> fn_name = ''message'',
                                             fn_arguments = ArgText ''{content: hi}'' \<rparr> \<rparr>] \<rparr>,
               choice_finish_reason = Some ''tool_calls'' \<rparr>],
          resp_usage = None \<rparr>"
       and choice =
        "\<lparr> choice_message =
            \<lparr> msg_content = None,
              msg_tool_calls =
                Some [\<lparr> tc_id = ''call_1'',
                        tc_function = \<lparr> fn_name = ''message'',
                                        fn_arguments = ArgText ''{content: hi}'' \<rparr> \<rparr>] \<rparr>,
           choice_finish_reason = Some ''tool_calls'' \<rparr>"
       and rest = "[]"
       and tcs =
        "[\<lparr> tc_id = ''call_1'',
            tc_function = \<lparr> fn_name = ''message'', fn_arguments = ArgText ''{content: hi}'' \<rparr> \<rparr>]"
       and loads = "loads_returning (JObject [(''content'', JString ''hi'')])"]
  by (simp add: loads_returns_def loads_returning_def)

text \<open>
  C10, as stated, fails in its last part: a completion whose own finish reason is
  "error" is parsed without any exception, and the response keeps that finish reason.
\<close>

theorem chat_finish_reason_error_counterexample:
  "chat_attempt \<lparr> api_key = Some ''sk'', api_base = None, default_model = ''m'' \<rparr>
     (backend_returning
        \<lparr> choices = [\<lparr> choice_message = \<lparr> msg_content = Some ''partial'', msg_tool_calls = None \<rparr>,
                       choice_finish_reason = Some ''error'' \<rparr>],
          resp_usage = None \<rparr>)
     (loads_returning JNull) [] None None 4096 0.7
   = Inr \<lparr> content = Some ''partial'', tool_calls = [], finish_reason = ''error'', usage = [] \<rparr>
   \<and> chat \<lparr> api_key = Some ''sk'', api_base = None, default_model = ''m'' \<rparr>
     (backend_returning
        \<lparr> choices = [\<lparr> choice_message = \<lparr> msg_content = Some ''partial'', msg_tool_calls = None \<rparr>,
                       choice_finish_reason = Some ''error'' \<rparr>],
          resp_usage = None \<rparr>)
     (loads_returning JNull) [] None None 4096 0.7
   = Inr \<lparr> content = Some ''partial'', tool_calls = [], finish_reason = ''error'', usage = [] \<rparr>"
  by (simp add: chat_def chat_attempt_def backend_returning_def parse_response_def
        or_default_def usage_dict_def)

text \<open>
  C10, amended: when the backend returns and parsing succeeds, \<open>chat\<close> returns the parsed
  response; its finish reason is never empty; it is "stop" when the completion's finish
  reason is None or empty, and otherwise it is the completion's own finish reason,
  unchanged.
\<close>

theorem chat_finish_reason_default:
  assumes "acompletion (chat_kwargs self messages tools model max_tokens temperature) = Inr response"
      and "parse_response loads response = Inr r"
  shows "chat self acompletion loads messages tools model max_tokens temperature = Inr r
       \<and> finish_reason r \<noteq> []
       \<and> (\<exists>choice rest. choices response = choice # rest
            \<and> (case choice_finish_reason choice of
                  None \<Rightarrow> finish_reason r = ''stop''
                | Some s \<Rightarrow> if s = [] then finish_reason r = ''stop'' else finish_reason r = s))"
  using assms
  by (auto simp: chat_def chat_attempt_def parse_response_def or_default_def Let_def
           split: list.splits sum.splits option.splits if_splits)

theorem chat_finish_reason_default_witness:
  "chat \<lparr> api_key = Some ''sk'', api_base = None, default_model = ''m'' \<rparr>
     (backend_returning
        \<lparr> choices = [\<lparr> choice_message = \<lparr> msg_content = Some ''4'', msg_tool_calls = None \<rparr>,
                       choice_finish_reason = None \<rparr>],
          resp_usage = None \<rparr>)
     (loads_returning JNull) [] None None 4096 0.7
   = Inr \<lparr> content = Some ''4'', tool_calls = [], finish_reason = ''stop'', usage = [] \<rparr>"
  using chat_finish_reason_default
    [where self = "\<lparr> api_key = Some ''sk'', api_base = None, default_model = ''m'' \<rparr>"
       and acompletion = "backend_returning
        \<lparr> choices = [\<lparr> choice_message = \<lparr> msg_content = Some ''4'', msg_tool_calls = None \<rparr>,
                       choice_finish_reason = None \<rparr>],
          resp_usage = None \<rparr>"
       and loads = "loads_returning JNull" and messages = "[]" and tools = None and model = None
       and max_tokens = 4096 and temperature = "0.7"
       and response = "\<lparr> choices = [\<lparr> choice_message = \<lparr> msg_content = Some ''4'', msg_tool_calls = None \<rparr>,
                       choice_finish_reason = None \<rparr>],
          resp_usage = None \<rparr>"
       and r = "\<lparr> content = Some ''4'', tool_calls = [], finish_reason = ''stop'', usage = [] \<rparr>"]
  by (simp add: backend_returning_def parse_response_def or_default_def usage_dict_def)

section \<open>Properties of the message tool\<close>

text \<open>
  C8, as stated, fails: called with the empty argument mapping, \<open>execute\<close> raises a
  TypeError, since its required parameter \<open>content\<close> is not supplied.
\<close>

theorem execute_counterexample:
  "execute [] =
     Inl (TypeError ''MessageTool.execute() missing 1 required positional argument: content'')"
  by (simp add: execute_def)

text \<open>
  C8, amended: for every argument mapping that supplies \<open>content\<close> and has no key
  \<open>self\<close>, whatever the values and the other keys, \<open>execute\<close> succeeds and returns the
  acknowledgment "Message displayed".
\<close>

theorem execute_acknowledges:
  assumes "''content'' \<in> set (map fst kwargs)" and "''self'' \<notin> set (map fst kwargs)"
  shows "execute kwargs = Inr ''Message displayed''"
  using assms by (simp add: execute_def)

theorem execute_acknowledges_witness:
  "execute [(''content'', JString ''hi''), (''channel'', JString ''cli'')]
     = Inr ''Message displayed''"
  using execute_acknowledges [of "[(''content'', JString ''hi''), (''channel'', JString ''cli'')]"]
  by simp

section \<open>Properties of the message bus\<close>

lemma run_bus_inbound_fifo:
  "consumed_inbound (fst (run_bus ops bus)) @ inbound (snd (run_bus ops bus))
     = inbound bus @ published_inbound ops"
proof (induction ops bus rule: run_bus.induct)
  case (4 ops bus)
  then show ?case
    by (cases "inbound bus")
       (auto simp: consume_inbound_def get_def split: prod.splits)
next
  case (5 ops bus)
  then show ?case
    by (cases "outbound bus")
       (auto simp: consume_outbound_def get_def split: prod.splits)
qed (simp_all add: publish_inbound_def publish_outbound_def put_def)

lemma run_bus_outbound_fifo:
  "consumed_outbound (fst (run_bus ops bus)) @ outbound (snd (run_bus ops bus))
     = outbound bus @ published_outbound ops"
proof (induction ops bus rule: run_bus.induct)
  case (4 ops bus)
  then show ?case
    by (cases "inbound bus")
       (auto simp: consume_inbound_def get_def split: prod.splits)
next
  case (5 ops bus)
  then show ?case
    by (cases "outbound bus")
       (auto simp: consume_outbound_def get_def split: prod.splits)
qed (simp_all add: publish_inbound_def publish_outbound_def put_def)

lemma run_bus_inbound_independent:
  "inbound bus2 = inbound bus \<Longrightarrow>
     consumed_inbound (fst (run_bus ops bus))
       = consumed_inbound (fst (run_bus (filter is_inbound_op ops) bus2))
     \<and> inbound (snd (run_bus ops bus))
       = inbound (snd (run_bus (filter is_inbound_op ops) bus2))"
proof (induction ops arbitrary: bus bus2)
  case Nil
  then show ?case by simp
next
  case step: (Cons op ops)
  show ?case
  proof (cases op)
    case (PublishInbound msg)
    have "inbound (publish_inbound msg bus2) = inbound (publish_inbound msg bus)"
      using step.prems by (simp add: publish_inbound_def)
    from step.IH[OF this] PublishInbound show ?thesis by simp
  next
    case ConsumeInbound
    show ?thesis
    proof (cases "inbound bus")
      case Nil
      with step.IH[OF step.prems] step.prems ConsumeInbound show ?thesis
        by (simp add: consume_inbound_def get_def)
    next
      case (Cons m ms)
      have "inbound (bus2\<lparr>inbound := ms\<rparr>) = inbound (bus\<lparr>inbound := ms\<rparr>)" by simp
      from step.IH[OF this] Cons step.prems ConsumeInbound show ?thesis
        by (auto simp: consume_inbound_def get_def split: prod.splits)
    qed
  next
    case (PublishOutbound msg)
    have "inbound bus2 = inbound (publish_outbound msg bus)"
      using step.prems by (simp add: publish_outbound_def)
    from step.IH[OF this] PublishOutbound show ?thesis by simp
  next
    case ConsumeOutbound
    show ?thesis
    proof (cases "outbound bus")
      case Nil
      with step.IH[OF step.prems] ConsumeOutbound show ?thesis
        by (simp add: consume_outbound_def get_def)
    next
      case (Cons m ms)
      have "inbound bus2 = inbound (bus\<lparr>outbound := ms\<rparr>)" using step.prems by simp
      from step.IH[OF this] Cons ConsumeOutbound show ?thesis
        by (auto simp: consume_outbound_def get_def split: prod.splits)
    qed
  qed
qed

text \<open>
  C5: for any sequence of calls on any bus, what the consume calls of a queue returned,
  followed by what is still pending in it, is what was pending before followed by what
  was published to it, in the same order: each queue is first in, first out. The size
  accessors count the published messages not yet consumed. The inbound queue behaves
  the same when every call on the outbound queue is left out and whatever the outbound
  queue holds, and the bus fixes no order between the two queues: after the same two
  publications either queue can be consumed first.
\<close>

theorem bus_fifo:
  "consumed_inbound (fst (run_bus ops bus)) @ inbound (snd (run_bus ops bus))
     = inbound bus @ published_inbound ops
   \<and> consumed_outbound (fst (run_bus ops bus)) @ outbound (snd (run_bus ops bus))
     = outbound bus @ published_outbound ops
   \<and> inbound_size (snd (run_bus ops bus)) + length (consumed_inbound (fst (run_bus ops bus)))
     = inbound_size bus + length (published_inbound ops)
   \<and> outbound_size (snd (run_bus ops bus)) + length (consumed_outbound (fst (run_bus ops bus)))
     = outbound_size bus + length (published_outbound ops)
   \<and> consumed_inbound (fst (run_bus ops bus))
     = consumed_inbound (fst (run_bus (filter is_inbound_op ops) (bus \<lparr> outbound := q \<rparr>)))
   \<and> fst (run_bus [PublishInbound u, PublishOutbound a, ConsumeInbound, ConsumeOutbound]
            MessageBus_init) = [FromInbound u, FromOutbound a]
   \<and> fst (run_bus [PublishInbound u, PublishOutbound a, ConsumeOutbound, ConsumeInbound]
            MessageBus_init) = [FromOutbound a, FromInbound u]"
proof -
  have i: "consumed_inbound (fst (run_bus ops bus)) @ inbound (snd (run_bus ops bus))
     = inbound bus @ published_inbound ops" by (rule run_bus_inbound_fifo)
  have out: "consumed_outbound (fst (run_bus ops bus)) @ outbound (snd (run_bus ops bus))
     = outbound bus @ published_outbound ops" by (rule run_bus_outbound_fifo)
  have si: "inbound_size (snd (run_bus ops bus)) + length (consumed_inbound (fst (run_bus ops bus)))
     = inbound_size bus + length (published_inbound ops)"
    using arg_cong[OF i, of length] by (simp add: inbound_size_def qsize_def)
  have so: "outbound_size (snd (run_bus ops bus)) + length (consumed_outbound (fst (run_bus ops bus)))
     = outbound_size bus + length (published_outbound ops)"
    using arg_cong[OF out, of length] by (simp add: outbound_size_def qsize_def)
  have ind: "consumed_inbound (fst (run_bus ops bus))
     = consumed_inbound (fst (run_bus (filter is_inbound_op ops) (bus \<lparr> outbound := q \<rparr>)))"
    using run_bus_inbound_independent[of "bus \<lparr> outbound := q \<rparr>" bus ops] by simp
  have a: "fst (run_bus [PublishInbound u, PublishOutbound a, ConsumeInbound, ConsumeOutbound]
            MessageBus_init) = [FromInbound u, FromOutbound a]"
    by (simp add: MessageBus_init_def publish_inbound_def publish_outbound_def
          consume_inbound_def consume_outbound_def get_def put_def)
  have b: "fst (run_bus [PublishInbound u, PublishOutbound a, ConsumeOutbound, ConsumeInbound]
            MessageBus_init) = [FromOutbound a, FromInbound u]"
    by (simp add: MessageBus_init_def publish_inbound_def publish_outbound_def
          consume_inbound_def consume_outbound_def get_def put_def)
  show ?thesis using i out si so ind a b by simp
qed

section \<open>Properties of the provider helper of the command line\<close>

lemma LiteLLMProvider_init_rejects:
  "LiteLLMProvider_init
     [(''api_key'', a), (''api_base'', b), (''default_model'', c), (''provider_name'', d)]
   = Inl (TypeError ''LiteLLMProvider.__init__() got an unexpected keyword argument provider_name'')"
  by (simp add: LiteLLMProvider_init_def LiteLLMProvider_parameters_def)

lemma find_by_model_name:
  "find_by_model m = Some spec \<Longrightarrow> spec_name spec = ''openrouter''"
  by (auto simp: find_by_model_def PROVIDERS_def split: if_splits)

text \<open>
  C9: for every configuration whose API key, as \<open>config.get_api_key()\<close> returns it, is
  not empty, and for every model argument, \<open>_make_provider\<close> does not return a provider:
  the constructor call raises a TypeError for the keyword \<open>provider_name\<close>.
\<close>

theorem make_provider_raises_TypeError:
  assumes "get_api_key config None \<noteq> []"
  shows "make_provider config model_arg =
           Inl (Raised (TypeError
             ''LiteLLMProvider.__init__() got an unexpected keyword argument provider_name''))"
proof -
  have "map_option spec_name (find_by_model m) \<noteq> Some ''ollama''" for m
    by (cases "find_by_model m") (auto dest: find_by_model_name)
  then show ?thesis
    using assms by (auto simp: make_provider_def Let_def LiteLLMProvider_init_rejects)
qed

theorem make_provider_raises_TypeError_witness:
  "make_provider
     \<lparr> agents_defaults =
         \<lparr> cfg_workspace = ''~/.nanobot/workspace'',
           cfg_model = ''openrouter/anthropic/claude-3-5-sonnet'',
           cfg_max_tokens = 8192, cfg_temperature = 0.7,
           cfg_max_tool_iterations = 20, cfg_memory_window = 50 \<rparr>,
       providers =
         \<lparr> openrouter = \<lparr> cfg_api_key = ''sk-or-v1-test'', cfg_api_base = None \<rparr>,
           ollama = \<lparr> cfg_api_key = [], cfg_api_base = None \<rparr> \<rparr> \<rparr>
     None
   = Inl (Raised (TypeError
       ''LiteLLMProvider.__init__() got an unexpected keyword argument provider_name''))"
  using make_provider_raises_TypeError
    [where config =
       "\<lparr> agents_defaults =
         \<lparr> cfg_workspace = ''~/.nanobot/workspace'',
           cfg_model = ''openrouter/anthropic/claude-3-5-sonnet'',
           cfg_max_tokens = 8192, cfg_temperature = 0.7,
           cfg_max_tool_iterations = 20, cfg_memory_window = 50 \<rparr>,
       providers =
         \<lparr> openrouter = \<lparr> cfg_api_key = ''sk-or-v1-test'', cfg_api_base = None \<rparr>,
           ollama = \<lparr> cfg_api_key = [], cfg_api_base = None \<rparr> \<rparr> \<rparr>"
      and model_arg = None]
  by (simp add: get_api_key_def)

section \<open>Properties of the agent loop\<close>

lemma dispatch_tool_provider_calls:
  "dispatch_tool loop progress_sink req w = (res, w', new) \<Longrightarrow> provider_calls new = 0"
  by (auto simp: dispatch_tool_def provider_calls_def Let_def
           split: option.splits prod.splits sum.splits)

lemma provider_calls_append:
  "provider_calls (xs @ ys) = provider_calls xs + provider_calls ys"
  by (simp add: provider_calls_def)

lemma dispatch_tools_provider_calls:
  "dispatch_tools loop progress_sink reqs history w evs = (history', w', evs')
     \<Longrightarrow> provider_calls evs' = provider_calls evs"
proof (induction reqs arbitrary: history w evs)
  case Nil
  then show ?case by simp
next
  case (Cons req reqs)
  obtain res w1 new where d: "dispatch_tool loop progress_sink req w = (res, w1, new)"
    by (cases "dispatch_tool loop progress_sink req w") auto
  with Cons.prems have
    "dispatch_tools loop progress_sink reqs (history @ [tool_message res]) w1 (evs @ new)
       = (history', w', evs')"
    by simp
  from Cons.IH[OF this] dispatch_tool_provider_calls[OF d] show ?case
    by (simp add: provider_calls_append)
qed

lemma iterate_provider_calls:
  "iterate loop progress_sink n history w evs = (answer, history', w', evs')
     \<Longrightarrow> provider_calls evs' \<le> provider_calls evs + n"
proof (induction n arbitrary: history w evs)
  case 0
  then show ?case by simp
next
  case (Suc n)
  obtain r w1 where c: "provider_chat loop history (map tool_schema (registry loop)) w = (r, w1)"
    by (cases "provider_chat loop history (map tool_schema (registry loop)) w") auto
  show ?case
  proof (cases "finish_reason r = ''error'' \<or> tool_calls r = []")
    case True
    with Suc.prems c have "evs' = evs @ [ProviderCall history]" by auto
    then show ?thesis by (simp add: provider_calls_def)
  next
    case False
    obtain h2 w2 evs2 where d:
      "dispatch_tools loop progress_sink (tool_calls r) (history @ [assistant_message r]) w1
         (evs @ [ProviderCall history]) = (h2, w2, evs2)"
      by (cases "dispatch_tools loop progress_sink (tool_calls r)
                   (history @ [assistant_message r]) w1 (evs @ [ProviderCall history])") auto
    with Suc.prems c False have
      "iterate loop progress_sink n h2 w2 evs2 = (answer, history', w', evs')"
      by auto
    from Suc.IH[OF this] dispatch_tools_provider_calls[OF d] show ?thesis
      by (simp add: provider_calls_def)
  qed
qed

text \<open>
  C3: a turn of \<open>process_direct\<close> is a total function of its inputs, so it always ends
  with an answer, and among the events of the turn there are at most \<open>max_iterations\<close>
  provider calls, whatever the provider, the tools and the progress sink do.
\<close>

theorem process_direct_provider_calls:
  "provider_calls (events (process_direct loop store user_text session_id progress_sink w))
     \<le> max_iterations loop"
proof -
  obtain answer history w' evs where
    t: "run_turn loop store user_text session_id progress_sink w = (answer, history, w', evs)"
    by (cases "run_turn loop store user_text session_id progress_sink w") auto
  then have "provider_calls evs \<le> provider_calls [] + max_iterations loop"
    unfolding run_turn_def by (rule iterate_provider_calls)
  with t show ?thesis by (simp add: process_direct_def provider_calls_def)
qed

theorem process_direct_provider_calls_witness:
  "provider_calls (events (process_direct
      \<lparr> provider_chat =
          provider_answering
            \<lparr> content = None,
              tool_calls = [\<lparr> request_id = ''call_1'', request_name = ''message'',
                              arguments = JObject [(''content'', JString ''hi'')] \<rparr>],
              finish_reason = ''tool_calls'', usage = [] \<rparr>,
        registry =
          [\<lparr> tool_name = ''message'', tool_description = ''Send a message to the user.'',
             tool_parameters = MessageTool_parameters,
             tool_execute = tool_returning ''Message displayed'' \<rparr>],
        max_iterations = 1, memory_window = 50 \<rparr>
      Map.empty ''hello'' ''default'' silent_sink ())) = 1
   \<and> final_text (process_direct
      \<lparr> provider_chat =
          provider_answering
            \<lparr> content = None,
              tool_calls = [\<lparr> request_id = ''call_1'', request_name = ''message'',
                              arguments = JObject [(''content'', JString ''hi'')] \<rparr>],
              finish_reason = ''tool_calls'', usage = [] \<rparr>,
        registry =
          [\<lparr> tool_name = ''message'', tool_description = ''Send a message to the user.'',
             tool_parameters = MessageTool_parameters,
             tool_execute = tool_returning ''Message displayed'' \<rparr>],
        max_iterations = 1, memory_window = 50 \<rparr>
      Map.empty ''hello'' ''default'' silent_sink ()) = Some limit_reached_text"
  using process_direct_provider_calls
    [where loop =
      "\<lparr> provider_chat =
          provider_answering
            \<lparr> content = None,
              tool_calls = [\<lparr> request_id = ''call_1'', request_name = ''message'',
                              arguments = JObject [(''content'', JString ''hi'')] \<rparr>],
              finish_reason = ''tool_calls'', usage = [] \<rparr>,
        registry =
          [\<lparr> tool_name = ''message'', tool_description = ''Send a message to the user.'',
             tool_parameters = MessageTool_parameters,
             tool_execute = tool_returning ''Message displayed'' \<rparr>],
        max_iterations = 1, memory_window = 50 \<rparr>"
      and store = Map.empty and user_text = "''hello''" and session_id = "''default''"
      and progress_sink = silent_sink and w = "()"]
  by (simp add: process_direct_def run_turn_def provider_answering_def dispatch_tool_def
        tool_returning_def silent_sink_def provider_calls_def)

lemma evict_drop:
  "evict window kept ms = drop (length ms - (window - kept)) ms"
proof (induction ms)
  case Nil
  then show ?case by simp
next
  case (Cons m ms)
  show ?case
  proof (cases "kept + length (m # ms) \<le> window")
    case True
    then show ?thesis by simp
  next
    case False
    then have "length (m # ms) - (window - kept) = Suc (length ms - (window - kept))" by simp
    with False Cons show ?thesis by simp
  qed
qed

lemma system_free_pinned: "system_free history \<Longrightarrow> pinned history = []"
  by (cases history) (auto simp: system_free_def pinned_def)

lemma trim_system_free:
  "system_free history \<Longrightarrow> trim window history = drop (length history - window) history"
  by (simp add: trim_def evict_drop unpinned_def system_free_pinned)

lemma system_free_drop: "system_free history \<Longrightarrow> system_free (drop n history)"
  by (auto simp: system_free_def dest: in_set_dropD)

lemma system_free_append:
  "system_free (xs @ ys) = (system_free xs \<and> system_free ys)"
  by (auto simp: system_free_def)

lemma dispatch_tools_system_free:
  "dispatch_tools loop progress_sink reqs history w evs = (history', w', evs')
     \<Longrightarrow> system_free history \<Longrightarrow> system_free history'"
proof (induction reqs arbitrary: history w evs)
  case Nil
  then show ?case by simp
next
  case (Cons req reqs)
  obtain res w1 new where d: "dispatch_tool loop progress_sink req w = (res, w1, new)"
    by (cases "dispatch_tool loop progress_sink req w") auto
  with Cons.prems have run:
    "dispatch_tools loop progress_sink reqs (history @ [tool_message res]) w1 (evs @ new)
       = (history', w', evs')"
    by simp
  have "system_free (history @ [tool_message res])"
    using Cons.prems(2) by (simp add: system_free_append) (simp add: system_free_def tool_message_def)
  from Cons.IH[OF run this] show ?case .
qed

lemma iterate_system_free:
  "iterate loop progress_sink n history w evs = (answer, history', w', evs')
     \<Longrightarrow> system_free history \<Longrightarrow> system_free history'"
proof (induction n arbitrary: history w evs)
  case 0
  then show ?case by simp
next
  case (Suc n)
  obtain r w1 where c: "provider_chat loop history (map tool_schema (registry loop)) w = (r, w1)"
    by (cases "provider_chat loop history (map tool_schema (registry loop)) w") auto
  have sf: "system_free (history @ [assistant_message r])"
    using Suc.prems(2) by (simp add: system_free_append) (simp add: system_free_def assistant_message_def)
  show ?case
  proof (cases "finish_reason r = ''error'' \<or> tool_calls r = []")
    case True
    with Suc.prems(1) c have "history' = history @ [assistant_message r]" by auto
    with sf show ?thesis by simp
  next
    case False
    obtain h2 w2 evs2 where d:
      "dispatch_tools loop progress_sink (tool_calls r) (history @ [assistant_message r]) w1
         (evs @ [ProviderCall history]) = (h2, w2, evs2)"
      by (cases "dispatch_tools loop progress_sink (tool_calls r)
                   (history @ [assistant_message r]) w1 (evs @ [ProviderCall history])") auto
    with Suc.prems(1) c False have
      "iterate loop progress_sink n h2 w2 evs2 = (answer, history', w', evs')"
      by auto
    from Suc.IH[OF this dispatch_tools_system_free[OF d sf]] show ?thesis .
  qed
qed

lemma run_turn_system_free:
  assumes "run_turn loop store user_text session_id progress_sink w = (answer, history, w', evs)"
      and "\<And>h. store session_id = Some h \<Longrightarrow> system_free h"
  shows "system_free history"
proof -
  have "system_free ((case store session_id of None \<Rightarrow> [] | Some h \<Rightarrow> h) @ [user_message user_text])"
    using assms(2)
    by (auto simp: system_free_append split: option.splits)
       (simp_all add: system_free_def user_message_def)
  with assms(1) show ?thesis
    unfolding run_turn_def by (rule iterate_system_free)
qed

lemma process_direct_sessions:
  "run_turn loop store user_text session_id progress_sink w = (answer, history, w', evs)
     \<Longrightarrow> sessions (process_direct loop store user_text session_id progress_sink w)
           = store(session_id \<mapsto> trim (memory_window loop) history)"
  by (simp add: process_direct_def)

lemma process_direct_keeps_bound:
  assumes inv: "\<And>sid h. store sid = Some h \<Longrightarrow> system_free h \<and> length h \<le> memory_window loop"
      and res: "sessions (process_direct loop store user_text session_id progress_sink w) sid
                  = Some h"
  shows "system_free h \<and> length h \<le> memory_window loop"
proof -
  obtain answer history w' evs where
    t: "run_turn loop store user_text session_id progress_sink w = (answer, history, w', evs)"
    by (cases "run_turn loop store user_text session_id progress_sink w") auto
  have sf: "system_free history"
    using run_turn_system_free[OF t] inv by blast
  show ?thesis
  proof (cases "sid = session_id")
    case True
    with res process_direct_sessions[OF t] have "h = trim (memory_window loop) history" by simp
    with sf show ?thesis by (simp add: trim_system_free system_free_drop)
  next
    case False
    with res process_direct_sessions[OF t] have "store sid = Some h" by simp
    then show ?thesis by (rule inv)
  qed
qed

lemma run_turns_keeps_bound:
  "run_turns loop progress_sink turns store0 w0 = (store, w)
     \<Longrightarrow> (\<And>sid h. store0 sid = Some h \<Longrightarrow> system_free h \<and> length h \<le> memory_window loop)
     \<Longrightarrow> store sid = Some h
     \<Longrightarrow> system_free h \<and> length h \<le> memory_window loop"
proof (induction turns arbitrary: store0 w0)
  case Nil
  then show ?case by simp
next
  case (Cons turn turns)
  obtain user_text session_id where turn: "turn = (user_text, session_id)" by (cases turn) auto
  let ?r = "process_direct loop store0 user_text session_id progress_sink w0"
  from Cons.prems(1) turn have run:
    "run_turns loop progress_sink turns (sessions ?r) (world ?r) = (store, w)"
    by simp
  have "\<And>sid h. sessions ?r sid = Some h
          \<Longrightarrow> system_free h \<and> length h \<le> memory_window loop"
    using process_direct_keeps_bound[of store0 loop] Cons.prems(2) by blast
  from Cons.IH[OF run this Cons.prems(3)] show ?case by simp
qed

text \<open>
  C4: in every store reached from the empty one by completed turns, and for every
  further turn, the history stored for the session after the turn is no longer than the
  memory window; it is the untrimmed history of the turn without its oldest messages,
  as many as exceed the window; and no system message leads it, so none is evicted.
  For any history whatever, the trim keeps a pinned leading system message in place and
  evicts the oldest of the other messages first.
\<close>

theorem process_direct_memory_window:
  assumes "run_turns loop progress_sink turns Map.empty w0 = (store, w)"
      and "run_turn loop store user_text session_id progress_sink w = (answer, history, w', evs)"
  shows "(\<exists>stored.
            sessions (process_direct loop store user_text session_id progress_sink w) session_id
              = Some stored
          \<and> length stored \<le> memory_window loop
          \<and> stored = drop (length history - memory_window loop) history
          \<and> pinned history = [])
       \<and> take (length (pinned h)) (trim window h) = pinned h
       \<and> trim window h
           = pinned h @ drop (length (unpinned h) - (window - length (pinned h))) (unpinned h)"
proof -
  have inv: "\<And>sid h. store sid = Some h \<Longrightarrow> system_free h \<and> length h \<le> memory_window loop"
    using run_turns_keeps_bound[OF assms(1)] by simp
  have sf: "system_free history"
    using run_turn_system_free[OF assms(2)] inv by blast
  have s: "sessions (process_direct loop store user_text session_id progress_sink w) session_id
             = Some (trim (memory_window loop) history)"
    using process_direct_sessions[OF assms(2)] by simp
  have t: "trim (memory_window loop) history = drop (length history - memory_window loop) history"
    using sf by (rule trim_system_free)
  have g: "trim window h
           = pinned h @ drop (length (unpinned h) - (window - length (pinned h))) (unpinned h)"
    by (simp add: trim_def evict_drop)
  have "take (length (pinned h)) (trim window h) = pinned h"
    by (simp add: trim_def)
  with s t g system_free_pinned[OF sf] show ?thesis by simp
qed

theorem process_direct_memory_window_witness:
  "sessions (process_direct
      \<lparr> provider_chat =
          provider_answering
            \<lparr> content = Some ''4'', tool_calls = [], finish_reason = ''stop'', usage = [] \<rparr>,
        registry = [], max_iterations = 20, memory_window = 2 \<rparr>
      (fst (run_turns
         \<lparr> provider_chat =
             provider_answering
               \<lparr> content = Some ''4'', tool_calls = [], finish_reason = ''stop'', usage = [] \<rparr>,
           registry = [], max_iterations = 20, memory_window = 2 \<rparr>
         silent_sink [(''What is 1+3'', ''default'')] Map.empty ()))
      ''What is 2+2'' ''default'' silent_sink ()) ''default''
   = Some [user_message ''What is 2+2'',
           \<lparr> sm_role = Assistant, sm_content = Some ''4'', sm_tool_calls = [],
             sm_tool_call_id = None \<rparr>]
   \<and> sessions (process_direct
      \<lparr> provider_chat =
          provider_answering
            \<lparr> content = Some ''4'', tool_calls = [], finish_reason = ''stop'', usage = [] \<rparr>,
        registry = [], max_iterations = 20, memory_window = 0 \<rparr>
      Map.empty ''What is 2+2'' ''default'' silent_sink ()) ''default''
   = Some []"
  using process_direct_memory_window
    [where loop =
      "\<lparr> provider_chat =
          provider_answering
            \<lparr> content = Some ''4'', tool_calls = [], finish_reason = ''stop'', usage = [] \<rparr>,
        registry = [], max_iterations = 20, memory_window = 2 \<rparr>"
      and progress_sink = silent_sink
      and turns = "[(''What is 1+3'', ''default'')]" and ?w0.0 = "()"
      and store = "[''default'' \<mapsto>
                     [user_message ''What is 1+3'',
                      \<lparr> sm_role = Assistant, sm_content = Some ''4'', sm_tool_calls = [],
                        sm_tool_call_id = None \<rparr>]]"
      and w = "()"
      and user_text = "''What is 2+2''" and session_id = "''default''"
      and answer = "Some ''4''"
      and history = "[user_message ''What is 1+3'',
                      \<lparr> sm_role = Assistant, sm_content = Some ''4'', sm_tool_calls = [],
                        sm_tool_call_id = None \<rparr>,
                      user_message ''What is 2+2'',
                      \<lparr> sm_role = Assistant, sm_content = Some ''4'', sm_tool_calls = [],
                        sm_tool_call_id = None \<rparr>]"
      and w' = "()"
      and evs = "[ProviderCall
                    [user_message ''What is 1+3'',
                     \<lparr> sm_role = Assistant, sm_content = Some ''4'', sm_tool_calls = [],
                       sm_tool_call_id = None \<rparr>,
                     user_message ''What is 2+2'']]"]
    process_direct_memory_window
    [where loop =
      "\<lparr> provider_chat =
          provider_answering
            \<lparr> content = Some ''4'', tool_calls = [], finish_reason = ''stop'', usage = [] \<rparr>,
        registry = [], max_iterations = 20, memory_window = 0 \<rparr>"
      and progress_sink = silent_sink
      and turns = "[]" and ?w0.0 = "()" and store = Map.empty and w = "()"
      and user_text = "''What is 2+2''" and session_id = "''default''"
      and answer = "Some ''4''"
      and history = "[user_message ''What is 2+2'',
                      \<lparr> sm_role = Assistant, sm_content = Some ''4'', sm_tool_calls = [],
                        sm_tool_call_id = None \<rparr>]"
      and w' = "()"
      and evs = "[ProviderCall [user_message ''What is 2+2'']]"]
  by (simp add: process_direct_def run_turn_def provider_answering_def trim_def pinned_def
        unpinned_def user_message_def assistant_message_def eval_nat_numeral)

end
